theory Spec2Isabelle
  imports Main "HOL-Library.Word"
begin

section \<open>Paths and patches: the model of descartes/patch.py\<close>

text \<open>
  The module adapts two kinds of polygon-like objects (objects with the attributes
  \<open>exterior\<close> and \<open>interiors\<close>, and GeoJSON-like dictionaries) to one interface, and
  builds a compound path from the adapted polygon. Every \<^verbatim>\<open>raise\<close> of the Python
  code, and of the library calls it makes, is a value \<open>Inl e\<close> of the result type; Python's
  \<^verbatim>\<open>None\<close> is the \<open>None\<close> of an option type.
\<close>

subsection \<open>Errors\<close>

datatype py_error =
    AttributeError
  | IndexError
  | ValueError
  | AssertionError string

subsection \<open>The polygon-like inputs\<close>

text \<open>
  A ring object of an attribute-based geometry carries its points under \<open>coords\<close>.
  The type of the points is a parameter: the adapter never looks inside a point.
\<close>

datatype 'p LinearRing = LinearRing (coords: "'p list")

text \<open>
  A GeoJSON-like dictionary. The code reads two keys only, \<^verbatim>\<open>'type'\<close> and
  \<^verbatim>\<open>'coordinates'\<close>; each entry is \<open>None\<close> when its key is absent from the dictionary.
  The entry under \<^verbatim>\<open>'coordinates'\<close> is a list of rings, a ring is a list of points.
\<close>

record 'p geo_mapping =
  type_entry :: "string option"
  coordinates_entry :: "'p list list option"

text \<open>
  An object, seen through the four attributes that the module asks for. An attribute
  that the object does not have is \<open>None\<close>: reading it raises \<^verbatim>\<open>AttributeError\<close>,
  and \<^verbatim>\<open>hasattr\<close> answers False.
\<close>

record 'p py_object =
  attr_geom_type :: "string option"
  attr_exterior :: "'p LinearRing option"
  attr_interiors :: "'p LinearRing list option"
  attr_geo_interface :: "'p geo_mapping option"

datatype 'p py_context = Object "'p py_object" | Mapping "'p geo_mapping"

text \<open>
  \<^verbatim>\<open>hasattr(context, 'exterior')\<close>, \<^verbatim>\<open>hasattr(context, 'interiors')\<close> and
  \<^verbatim>\<open>hasattr(context, '__geo_interface__')\<close>. A dictionary has none of the three.
\<close>

fun hasattr_exterior :: "'p py_context \<Rightarrow> bool" where
  "hasattr_exterior (Object ob) = (attr_exterior ob \<noteq> None)"
| "hasattr_exterior (Mapping m) = False"

fun hasattr_interiors :: "'p py_context \<Rightarrow> bool" where
  "hasattr_interiors (Object ob) = (attr_interiors ob \<noteq> None)"
| "hasattr_interiors (Mapping m) = False"

fun getattr_geo_interface :: "'p py_context \<Rightarrow> 'p geo_mapping option" where
  "getattr_geo_interface (Object ob) = attr_geo_interface ob"
| "getattr_geo_interface (Mapping m) = None"

definition hasattr_geo_interface :: "'p py_context \<Rightarrow> bool" where
  "hasattr_geo_interface ctx = (getattr_geo_interface ctx \<noteq> None)"

subsection \<open>Python's dictionary and list operations\<close>

text \<open>\<^verbatim>\<open>d.get(key, default)\<close>, on the entry of the key.\<close>

definition dict_get :: "'v option \<Rightarrow> 'v \<Rightarrow> 'v" where
  "dict_get entry dflt = (case entry of None \<Rightarrow> dflt | Some v \<Rightarrow> v)"

text \<open>\<^verbatim>\<open>xs[0]\<close> raises \<^verbatim>\<open>IndexError\<close> on the empty list; \<^verbatim>\<open>xs[1:]\<close> never raises.\<close>

fun getitem0 :: "'a list \<Rightarrow> py_error + 'a" where
  "getitem0 [] = Inl IndexError"
| "getitem0 (x # xs) = Inr x"

definition slice_from1 :: "'a list \<Rightarrow> 'a list" where
  "slice_from1 xs = drop 1 xs"

subsection \<open>The adapter: class Polygon\<close>

record 'p Polygon =
  is_shapely :: bool
  self_context :: "'p py_context"

definition Polygon_init :: "'p py_context \<Rightarrow> 'p Polygon" where
  "Polygon_init ctx =
     (if hasattr_interiors ctx \<or> hasattr_exterior ctx then
        \<lparr>is_shapely = True, self_context = ctx\<rparr>
      else
        (case getattr_geo_interface ctx of
           Some g \<Rightarrow> \<lparr>is_shapely = False, self_context = Mapping g\<rparr>
         | None \<Rightarrow> \<lparr>is_shapely = False, self_context = ctx\<rparr>))"

text \<open>
  The three properties. In the attribute branch the stored context is read through its
  attributes, in the other branch through \<^verbatim>\<open>get\<close>; an object of this model has no
  method \<^verbatim>\<open>get\<close> and a dictionary has none of the attributes, so the wrong kind of
  context raises \<^verbatim>\<open>AttributeError\<close>.
\<close>

definition geom_type :: "'p Polygon \<Rightarrow> py_error + string option" where
  "geom_type self =
     (if is_shapely self then
        (case self_context self of
           Object ob \<Rightarrow>
             (case attr_geom_type ob of
                None \<Rightarrow> Inl AttributeError
              | Some t \<Rightarrow> Inr (Some t))
         | Mapping m \<Rightarrow> Inl AttributeError)
      else
        (case self_context self of
           Object ob \<Rightarrow> Inl AttributeError
         | Mapping m \<Rightarrow> Inr (type_entry m)))"

definition exterior :: "'p Polygon \<Rightarrow> py_error + 'p list option" where
  "exterior self =
     (if is_shapely self then
        (case self_context self of
           Object ob \<Rightarrow>
             (case attr_exterior ob of
                None \<Rightarrow> Inl AttributeError
              | Some ring \<Rightarrow>
                  (let ext_list = coords ring
                   in if length ext_list = 0 then Inr None else Inr (Some ext_list)))
         | Mapping m \<Rightarrow> Inl AttributeError)
      else
        (case self_context self of
           Object ob \<Rightarrow> Inl AttributeError
         | Mapping m \<Rightarrow>
             (case getitem0 (dict_get (coordinates_entry m) []) of
                Inl e \<Rightarrow> Inl e
              | Inr ring \<Rightarrow> Inr (Some ring))))"

definition interiors :: "'p Polygon \<Rightarrow> py_error + 'p list list" where
  "interiors self =
     (if is_shapely self then
        (case self_context self of
           Object ob \<Rightarrow>
             (case attr_interiors ob of
                None \<Rightarrow> Inl AttributeError
              | Some rings \<Rightarrow> Inr (map coords rings))
         | Mapping m \<Rightarrow> Inl AttributeError)
      else
        (case self_context self of
           Object ob \<Rightarrow> Inl AttributeError
         | Mapping m \<Rightarrow> Inr (slice_from1 (dict_get (coordinates_entry m) []))))"

subsection \<open>The library calls: numpy arrays and matplotlib paths\<close>

text \<open>
  The arrays that the module builds are one-dimensional, or two-dimensional with rows of
  two numbers (shape \<open>(n, 2)\<close>). Points are pairs here, so \<^verbatim>\<open>asarray\<close> of a non-empty
  ring has shape \<open>(n, 2)\<close>, while \<^verbatim>\<open>asarray([])\<close> has shape \<open>(0,)\<close>: one dimension.
\<close>

datatype 'e ndarray = Array1 "'e list" | Array2 "('e \<times> 'e) list"

definition asarray :: "('e \<times> 'e) list \<Rightarrow> 'e ndarray" where
  "asarray ring = (if ring = [] then Array1 [] else Array2 ring)"

text \<open>
  \<^verbatim>\<open>concatenate\<close> joins along the first axis. It raises \<^verbatim>\<open>ValueError\<close> when there
  is no array to join and when the arrays do not all have the same number of dimensions.
\<close>

fun concatenate :: "'e ndarray list \<Rightarrow> py_error + 'e ndarray" where
  "concatenate [] = Inl ValueError"
| "concatenate [a] = Inr a"
| "concatenate (a # b # rest) =
     (case concatenate (b # rest) of
        Inl e \<Rightarrow> Inl e
      | Inr joined \<Rightarrow>
          (case (a, joined) of
             (Array1 xs, Array1 ys) \<Rightarrow> Inr (Array1 (xs @ ys))
           | (Array2 xs, Array2 ys) \<Rightarrow> Inr (Array2 (xs @ ys))
           | _ \<Rightarrow> Inl ValueError))"

text \<open>\<^verbatim>\<open>Path.code_type\<close> is an unsigned byte; the two codes that the module uses.\<close>

type_synonym code_type = "8 word"

definition MOVETO :: code_type where
  "MOVETO = 1"

definition LINETO :: code_type where
  "LINETO = 2"

definition ones :: "nat \<Rightarrow> code_type ndarray" where
  "ones n = Array1 (replicate n 1)"

fun array_times :: "code_type ndarray \<Rightarrow> code_type \<Rightarrow> code_type ndarray" where
  "array_times (Array1 xs) c = Array1 (map (\<lambda>v. v * c) xs)"
| "array_times (Array2 xs) c = Array2 (map (\<lambda>(v, w). (v * c, w * c)) xs)"

text \<open>\<^verbatim>\<open>vals[0] = v\<close> raises \<^verbatim>\<open>IndexError\<close> on an array of length 0.\<close>

fun setitem0 :: "'e ndarray \<Rightarrow> 'e \<Rightarrow> py_error + 'e ndarray" where
  "setitem0 (Array1 []) v = Inl IndexError"
| "setitem0 (Array1 (x # xs)) v = Inr (Array1 (v # xs))"
| "setitem0 (Array2 []) v = Inl IndexError"
| "setitem0 (Array2 (x # xs)) v = Inr (Array2 ((v, v) # xs))"

text \<open>
  The constructor of a matplotlib path converts every coordinate of its vertices to a
  64-bit float. The conversion is a parameter \<open>to_float\<close> of the model, from the type of
  the input's coordinates to the type of the float values: it is the identity on a
  coordinate that is a float already, and it rounds an integer that no float holds.
  The model takes the conversion to succeed on every coordinate: an input whose
  coordinates are not numbers, or are integers too large for any float, is outside of it.

  For coordinates that numpy holds as 64-bit signed integers the conversion is
  \<open>float64_of_int64\<close>: the nearest number with 53 significant bits, a tie going to the
  even one. Every such float is an integer, so it is given by its value.
\<close>

function excess_bits :: "nat \<Rightarrow> nat" where
  "excess_bits a = (if a < 2 ^ 53 then 0 else Suc (excess_bits (a div 2)))"
  by pat_completeness auto
termination
  by (relation "measure (\<lambda>a. a)") auto

declare excess_bits.simps [simp del]

definition round_half_even :: "nat \<Rightarrow> nat" where
  "round_half_even a =
     (let e = excess_bits a;
          q = a div 2 ^ e;
          r = a mod 2 ^ e
      in if 2 ^ e < 2 * r \<or> (2 * r = 2 ^ e \<and> odd q) then (q + 1) * 2 ^ e else q * 2 ^ e)"

definition float64_of_int64 :: "64 word \<Rightarrow> int" where
  "float64_of_int64 w =
     (let n = sint w
      in if n < 0 then - int (round_half_even (nat (- n))) else int (round_half_even (nat n)))"

text \<open>
  A path holds its vertices, as floats, and their codes. The constructor wants vertices
  of shape \<open>(n, 2)\<close> and, when there are vertices, one-dimensional codes of the same
  length that start with \<^verbatim>\<open>MOVETO\<close>; otherwise it raises \<^verbatim>\<open>ValueError\<close>.
  The record holds one-dimensional codes only, so codes of two dimensions are refused
  here for every array of vertices; \<open>PolygonPath\<close> never builds such codes.
\<close>

record 'f Path =
  vertices :: "('f \<times> 'f) list"
  codes :: "code_type list"

definition Path_init ::
  "('e \<Rightarrow> 'f) \<Rightarrow> 'e ndarray \<Rightarrow> code_type ndarray \<Rightarrow> py_error + 'f Path" where
  "Path_init to_float vs cs =
     (case vs of
        Array1 xs \<Rightarrow> Inl ValueError
      | Array2 points \<Rightarrow>
          (let verts = map (\<lambda>(x, y). (to_float x, to_float y)) points in
           if verts = [] then
             (case cs of
                Array1 c \<Rightarrow> Inr \<lparr>vertices = verts, codes = c\<rparr>
              | Array2 c \<Rightarrow> Inl ValueError)
           else
             (case cs of
                Array1 c \<Rightarrow>
                  (if length c \<noteq> length verts then Inl ValueError
                   else if c \<noteq> [] \<and> hd c \<noteq> MOVETO then Inl ValueError
                   else Inr \<lparr>vertices = verts, codes = c\<rparr>)
              | Array2 c \<Rightarrow> Inl ValueError)))"

subsection \<open>PolygonPath and PolygonPatch\<close>

text \<open>\<^verbatim>\<open>str\<close> of a type tag, as the f-string of the assertion formats it.\<close>

fun py_str :: "string option \<Rightarrow> string" where
  "py_str None = ''None''"
| "py_str (Some s) = s"

text \<open>
  The inner function \<^verbatim>\<open>coding\<close>. Its argument is always a list here, a list has no
  attribute \<open>coords\<close>, so \<^verbatim>\<open>getattr(ob, 'coords', None) or ob\<close> is \<open>ob\<close> itself.
\<close>

definition coding :: "'p list \<Rightarrow> py_error + code_type ndarray" where
  "coding ob =
     (let n = length ob;
          vals = array_times (ones n) LINETO
      in setitem0 vals MOVETO)"

text \<open>
  \<^verbatim>\<open>[coding(this.exterior)] + [coding(r) for r in this.interiors]\<close>: the calls run from
  left to right and the first one that raises ends the evaluation.
\<close>

fun codings :: "'p list list \<Rightarrow> py_error + code_type ndarray list" where
  "codings [] = Inr []"
| "codings (r # rs) =
     (case coding r of
        Inl e \<Rightarrow> Inl e
      | Inr c \<Rightarrow> (case codings rs of Inl e \<Rightarrow> Inl e | Inr cs \<Rightarrow> Inr (c # cs)))"

text \<open>
  \<^verbatim>\<open>PolygonPath\<close>, statement by statement: the adapter is built, the assertion reads
  \<open>geom_type\<close>, the f-string of the debug message reads \<open>exterior\<close> (and so raises what
  \<open>exterior\<close> raises), \<open>None\<close> is returned for a null exterior, then the vertices
  are joined, then the codes, then the path is constructed, which converts the vertices
  with \<open>to_float\<close>. What the logger does with the messages is not modelled.
\<close>

definition PolygonPath ::
  "('e \<Rightarrow> 'f) \<Rightarrow> ('e \<times> 'e) py_context \<Rightarrow> py_error + 'f Path option" where
  "PolygonPath to_float polygon =
     (let this = Polygon_init polygon in
      case geom_type this of
        Inl e \<Rightarrow> Inl e
      | Inr t \<Rightarrow>
          if t \<noteq> Some ''Polygon'' then Inl (AssertionError (''Wrong Type: '' @ py_str t))
          else
            (case exterior this of
               Inl e \<Rightarrow> Inl e
             | Inr None \<Rightarrow> Inr None
             | Inr (Some ext) \<Rightarrow>
                 (case interiors this of
                    Inl e \<Rightarrow> Inl e
                  | Inr holes \<Rightarrow>
                      (case concatenate (asarray ext # map asarray holes) of
                         Inl e \<Rightarrow> Inl e
                       | Inr verts \<Rightarrow>
                           (case codings (ext # holes) of
                              Inl e \<Rightarrow> Inl e
                            | Inr cs \<Rightarrow>
                                (case concatenate cs of
                                   Inl e \<Rightarrow> Inl e
                                 | Inr cds \<Rightarrow>
                                     (case Path_init to_float verts cds of
                                        Inl e \<Rightarrow> Inl e
                                      | Inr path \<Rightarrow> Inr (Some path))))))))"

text \<open>
  \<^verbatim>\<open>PolygonPatch\<close>. The constructor \<^verbatim>\<open>PathPatch\<close> of matplotlib is a parameter,
  as are the types of the keyword arguments and of the patch.
\<close>

definition PolygonPatch ::
  "('f Path \<Rightarrow> 'k \<Rightarrow> py_error + 's) \<Rightarrow> ('e \<Rightarrow> 'f) \<Rightarrow> ('e \<times> 'e) py_context \<Rightarrow> 'k
     \<Rightarrow> py_error + 's option" where
  "PolygonPatch PathPatch to_float polygon kwargs =
     (case PolygonPath to_float polygon of
        Inl e \<Rightarrow> Inl e
      | Inr None \<Rightarrow> Inr None
      | Inr (Some ppath) \<Rightarrow>
          (case PathPatch ppath kwargs of
             Inl e \<Rightarrow> Inl e
           | Inr p \<Rightarrow> Inr (Some p)))"

subsection \<open>The positions of the move commands, as the specification states them\<close>

text \<open>
  For rings of sizes \<open>N, h\<^sub>1, \<dots>, h\<^sub>H\<close> the positions \<open>0, N, N + h\<^sub>1, \<dots>\<close>, one for each
  ring: the sums of the sizes before it.
\<close>

fun move_positions :: "nat list \<Rightarrow> nat list" where
  "move_positions [] = []"
| "move_positions (n # ns) = 0 # map (\<lambda>k. n + k) (move_positions ns)"

section \<open>Facts about the arrays and the codes\<close>

lemma asarray_nonempty: "ring \<noteq> [] \<Longrightarrow> asarray ring = Array2 ring"
  by (simp add: asarray_def)

lemma concatenate_Array2:
  "xss \<noteq> [] \<Longrightarrow> concatenate (map Array2 xss) = Inr (Array2 (concat xss))"
proof (induction xss)
  case Nil
  then show ?case by simp
next
  case (Cons xs xss)
  then show ?case by (cases xss) simp_all
qed

lemma concatenate_Array1:
  "xss \<noteq> [] \<Longrightarrow> concatenate (map Array1 xss) = Inr (Array1 (concat xss))"
proof (induction xss)
  case Nil
  then show ?case by simp
next
  case (Cons xs xss)
  then show ?case by (cases xss) simp_all
qed






lemma coding_Nil: "coding [] = Inl IndexError"
  by (simp add: coding_def ones_def)

lemma coding_nonempty:
  "ob \<noteq> [] \<Longrightarrow> coding ob = Inr (Array1 ((replicate (length ob) LINETO)[0 := MOVETO]))"
  by (cases ob) (simp_all add: coding_def ones_def)

lemma codings_nonempty:
  "\<forall>r\<in>set rings. r \<noteq> [] \<Longrightarrow>
   codings rings = Inr (map (\<lambda>r. Array1 ((replicate (length r) LINETO)[0 := MOVETO])) rings)"
  by (induction rings) (simp_all add: coding_nonempty)


section \<open>Facts about PolygonPath\<close>

lemma Path_init_ok:
  "points \<noteq> [] \<Longrightarrow> length c = length points \<Longrightarrow> hd c = MOVETO \<Longrightarrow>
   Path_init to_float (Array2 points) (Array1 c)
     = Inr \<lparr>vertices = map (\<lambda>(x, y). (to_float x, to_float y)) points, codes = c\<rparr>"
  by (simp add: Path_init_def)


lemma Path_init_codes:
  "Path_init to_float verts cds = Inr path \<Longrightarrow> cds = Array1 (codes path)"
  by (auto simp: Path_init_def Let_def split: ndarray.splits if_splits)

lemma length_concat_ring_codes:
  "length (concat (map (\<lambda>r. (replicate (length r) LINETO)[0 := MOVETO]) rings)) = length (concat rings)"
  by (induction rings) simp_all

lemma hd_concat_ring_codes:
  "ext \<noteq> [] \<Longrightarrow> hd (concat (map (\<lambda>r. (replicate (length r) LINETO)[0 := MOVETO]) (ext # holes))) = MOVETO"
  by (cases ext) simp_all

lemma PolygonPath_rings:
  assumes "geom_type (Polygon_init polygon) = Inr (Some ''Polygon'')"
    and "exterior (Polygon_init polygon) = Inr (Some ext)"
    and "interiors (Polygon_init polygon) = Inr holes"
    and "ext \<noteq> []" and "\<forall>r\<in>set holes. r \<noteq> []"
  shows "PolygonPath to_float polygon
      = Inr (Some \<lparr>vertices = map (\<lambda>(x, y). (to_float x, to_float y)) (concat (ext # holes)),
           codes = concat (map (\<lambda>r. (replicate (length r) LINETO)[0 := MOVETO]) (ext # holes))\<rparr>)"
proof -
  let ?rings = "ext # holes"
  let ?blocks = "map (\<lambda>r. (replicate (length r) LINETO)[0 := MOVETO]) ?rings"
  have all: "\<forall>r\<in>set ?rings. r \<noteq> []" using assms(4,5) by simp
  have "map asarray ?rings = map Array2 ?rings"
    using all by (simp add: asarray_nonempty)
  then have "concatenate (map asarray ?rings) = Inr (Array2 (concat ?rings))"
    using concatenate_Array2 [of ?rings] by (simp only: list.distinct not_False_eq_True)
  then have verts: "concatenate (asarray ext # map asarray holes) = Inr (Array2 (concat ?rings))"
    by simp
  have cs: "codings ?rings = Inr (map Array1 ?blocks)"
    using codings_nonempty [OF all] by (simp add: comp_def)
  have cds: "concatenate (map Array1 ?blocks) = Inr (Array1 (concat ?blocks))"
    by (rule concatenate_Array1) simp
  have path: "Path_init to_float (Array2 (concat ?rings)) (Array1 (concat ?blocks))
      = Inr \<lparr>vertices = map (\<lambda>(x, y). (to_float x, to_float y)) (concat ?rings), codes = concat ?blocks\<rparr>"
    using assms(4) length_concat_ring_codes [of ?rings] hd_concat_ring_codes [of ext holes]
    by (intro Path_init_ok) simp_all
  show ?thesis
    unfolding PolygonPath_def Let_def
    by (simp only: assms(1,2,3) verts cs cds path sum.case option.case if_False simp_thms)
qed


lemma ring_codes_nth:
  "\<forall>n\<in>set ns. 0 < n \<Longrightarrow> i < sum_list ns \<Longrightarrow>
   concat (map (\<lambda>n. (replicate n LINETO)[0 := MOVETO]) ns) ! i
     = (if i \<in> set (move_positions ns) then MOVETO else LINETO)"
proof (induction ns arbitrary: i)
  case Nil
  then show ?case by simp
next
  case (Cons n ns)
  show ?case
  proof (cases "i < n")
    case True
    then have "i \<in> set (move_positions (n # ns)) \<longleftrightarrow> i = 0" by auto
    with True show ?thesis by (simp add: nth_append nth_list_update)
  next
    case False
    with Cons.prems have pos: "0 < n" and rest: "i - n < sum_list ns" by auto
    have "i - n \<in> set (move_positions ns) \<Longrightarrow> \<exists>k\<in>set (move_positions ns). i = n + k"
      using False by (intro bexI [of _ "i - n"]) simp_all
    with False pos have "i \<in> set (move_positions (n # ns)) \<longleftrightarrow> i - n \<in> set (move_positions ns)"
      by (auto simp: image_iff)
    with False Cons.IH [of "i - n"] Cons.prems rest show ?thesis
      by (simp add: nth_append)
  qed
qed


lemma Polygon_init_Mapping:
  "Polygon_init (Mapping m) = \<lparr>is_shapely = False, self_context = Mapping m\<rparr>"
  by (simp add: Polygon_init_def)

lemma Polygon_init_kind_A:
  "attr_exterior ob \<noteq> None \<or> attr_interiors ob \<noteq> None \<Longrightarrow>
   Polygon_init (Object ob) = \<lparr>is_shapely = True, self_context = Object ob\<rparr>"
  by (auto simp: Polygon_init_def)

lemma move_positions_less:
  "\<forall>n\<in>set ns. 0 < n \<Longrightarrow> k \<in> set (move_positions ns) \<Longrightarrow> k < sum_list ns"
  by (induction ns arbitrary: k) auto

lemma sum_list_lengths: "sum_list (map length rings) = length (concat rings)"
  by (induction rings) simp_all

section \<open>The compound path of an attribute-based polygon\<close>

text \<open>
  Claim C1. An attribute-based input with type tag \<open>Polygon\<close>, an exterior ring of
  \<open>N \<ge> 1\<close> points and interior rings of \<open>h\<^sub>1, \<dots>, h\<^sub>H\<close> points, each at least one:
  \<open>PolygonPath\<close> returns a path with \<open>N + h\<^sub>1 + \<dots> + h\<^sub>H\<close> vertices and as many
  commands; the commands at the positions \<open>0, N, N + h\<^sub>1, \<dots>\<close> are \<open>MOVETO\<close> and the
  commands at all other positions are \<open>LINETO\<close>.
\<close>

theorem PolygonPath_attribute_based_commands:
  assumes "attr_geom_type ob = Some ''Polygon''"
    and "attr_exterior ob = Some ext"
    and "attr_interiors ob = Some holes"
    and "1 \<le> length (coords ext)"
    and "\<forall>h\<in>set holes. 1 \<le> length (coords h)"
  shows "\<exists>path. PolygonPath to_float (Object ob) = Inr (Some path)
     \<and> length (vertices path) = length (coords ext) + sum_list (map (\<lambda>h. length (coords h)) holes)
     \<and> length (codes path) = length (vertices path)
     \<and> (\<forall>k\<in>set (move_positions (length (coords ext) # map (\<lambda>h. length (coords h)) holes)).
           k < length (codes path) \<and> codes path ! k = MOVETO)
     \<and> (\<forall>i<length (codes path).
           i \<notin> set (move_positions (length (coords ext) # map (\<lambda>h. length (coords h)) holes))
           \<longrightarrow> codes path ! i = LINETO)"
proof -
  let ?rings = "coords ext # map coords holes"
  let ?sizes = "length (coords ext) # map (\<lambda>h. length (coords h)) holes"
  let ?cs = "concat (map (\<lambda>n. (replicate n LINETO)[0 := MOVETO]) ?sizes)"
  have init: "Polygon_init (Object ob) = \<lparr>is_shapely = True, self_context = Object ob\<rparr>"
    using assms(2) by (simp add: Polygon_init_kind_A)
  have ne: "coords ext \<noteq> []" using assms(4) by auto
  have nes: "\<forall>r\<in>set (map coords holes). r \<noteq> []" using assms(5) by auto
  have g: "geom_type (Polygon_init (Object ob)) = Inr (Some ''Polygon'')"
    by (simp add: init geom_type_def assms(1))
  have e: "exterior (Polygon_init (Object ob)) = Inr (Some (coords ext))"
    using ne by (simp add: init exterior_def assms(2))
  have i: "interiors (Polygon_init (Object ob)) = Inr (map coords holes)"
    by (simp add: init interiors_def assms(3))
  have sizes: "?sizes = map length ?rings" by (simp add: comp_def)
  have pos: "\<forall>n\<in>set ?sizes. 0 < n" using assms(4,5) by auto
  have p: "PolygonPath to_float (Object ob)
      = Inr (Some \<lparr>vertices = map (\<lambda>(x, y). (to_float x, to_float y)) (concat ?rings), codes = ?cs\<rparr>)"
    using PolygonPath_rings [OF g e i ne nes] by (simp add: comp_def)
  have lv: "length (concat ?rings) = sum_list ?sizes"
    unfolding sizes by (rule sum_list_lengths [symmetric])
  have lc: "length ?cs = sum_list ?sizes"
    using length_concat_ring_codes [of ?rings] lv by (simp add: comp_def)
  have mv: "\<forall>k\<in>set (move_positions ?sizes). k < length ?cs \<and> ?cs ! k = MOVETO"
  proof
    fix k assume k: "k \<in> set (move_positions ?sizes)"
    then have "k < sum_list ?sizes" using move_positions_less [OF pos] by blast
    then show "k < length ?cs \<and> ?cs ! k = MOVETO"
      using ring_codes_nth [OF pos, of k] k lc by simp
  qed
  have ln: "\<forall>i<length ?cs. i \<notin> set (move_positions ?sizes) \<longrightarrow> ?cs ! i = LINETO"
    using ring_codes_nth [OF pos] lc by simp
  define path where "path = \<lparr>vertices = map (\<lambda>(x, y). (to_float x, to_float y)) (concat ?rings), codes = ?cs\<rparr>"
  have v: "length (vertices path) = length (concat ?rings)" and c: "codes path = ?cs"
    by (simp_all add: path_def)
  have tot: "sum_list ?sizes = length (coords ext) + sum_list (map (\<lambda>h. length (coords h)) holes)"
    by simp
  show ?thesis
  proof (intro exI conjI)
    show "PolygonPath to_float (Object ob) = Inr (Some path)"
      unfolding path_def by (rule p)
    show "length (vertices path)
        = length (coords ext) + sum_list (map (\<lambda>h. length (coords h)) holes)"
      unfolding v lv by (rule tot)
    show "length (codes path) = length (vertices path)"
      unfolding v c lv lc by (rule refl)
    show "\<forall>k\<in>set (move_positions ?sizes). k < length (codes path) \<and> codes path ! k = MOVETO"
      unfolding c by (rule mv)
    show "\<forall>i<length (codes path). i \<notin> set (move_positions ?sizes) \<longrightarrow> codes path ! i = LINETO"
      unfolding c by (rule ln)
  qed
qed


theorem PolygonPath_attribute_based_commands_witness:
  "(case PolygonPath float64_of_int64 (Object \<lparr>attr_geom_type = Some ''Polygon'',
        attr_exterior = Some (LinearRing [(0, 0), (1, 0), (1, 1), (0, 1)]),
        attr_interiors = Some [LinearRing [(2, 2), (8, 2), (5, 8)]],
        attr_geo_interface = None\<rparr>) of
      Inr (Some path) \<Rightarrow>
        length (vertices path) = 7 \<and> length (codes path) = 7
        \<and> codes path ! 0 = MOVETO \<and> codes path ! 4 = MOVETO \<and> codes path ! 5 = LINETO
    | _ \<Rightarrow> False)"
  using PolygonPath_attribute_based_commands
    [of "\<lparr>attr_geom_type = Some ''Polygon'',
        attr_exterior = Some (LinearRing [(0, 0), (1, 0), (1, 1), (0, 1)]),
        attr_interiors = Some [LinearRing [(2, 2), (8, 2), (5, 8)]],
        attr_geo_interface = None\<rparr>"
        "LinearRing [(0, 0), (1, 0), (1, 1), (0, 1)]"
        "[LinearRing [(2, 2), (8, 2), (5, 8)]]" float64_of_int64]
  by (auto simp: eval_nat_numeral)

section \<open>The vertices of the compound path\<close>










section \<open>Inputs without a path\<close>

text \<open>
  Claim C2. When the adapter's \<open>geom_type\<close> is anything but the string \<open>Polygon\<close>
  (another string such as \<open>MultiPolygon\<close>, or \<open>None\<close>), \<open>PolygonPath\<close> fails with
  an assertion error whose message is \<open>Wrong Type: \<close> followed by the type tag that it
  met; it returns neither a path nor \<open>None\<close>. The assertion is the first statement
  after the construction of the adapter, so nothing of the rings is read before.
\<close>

theorem PolygonPath_wrong_type:
  assumes "geom_type (Polygon_init polygon) = Inr t" and "t \<noteq> Some ''Polygon''"
  shows "PolygonPath to_float polygon = Inl (AssertionError (''Wrong Type: '' @ py_str t))
     \<and> PolygonPath to_float polygon \<noteq> Inr None
     \<and> (\<forall>path. PolygonPath to_float polygon \<noteq> Inr (Some path))"
  using assms by (simp add: PolygonPath_def)

theorem PolygonPath_wrong_type_witness:
  "geom_type (Polygon_init (Mapping \<lparr>type_entry = Some ''MultiPolygon'',
       coordinates_entry = Some [[(0::64 word, 0::64 word), (1, 0), (1, 1)]]\<rparr>))
     = Inr (Some ''MultiPolygon'')
   \<and> PolygonPath float64_of_int64 (Mapping \<lparr>type_entry = Some ''MultiPolygon'',
       coordinates_entry = Some [[(0, 0), (1, 0), (1, 1)]]\<rparr>)
     = Inl (AssertionError ''Wrong Type: MultiPolygon'')"
  using PolygonPath_wrong_type
    [of "Mapping \<lparr>type_entry = Some ''MultiPolygon'',
       coordinates_entry = Some [[(0::64 word, 0::64 word), (1, 0), (1, 1)]]\<rparr>"
       "Some ''MultiPolygon''" float64_of_int64]
  by (simp add: Polygon_init_Mapping geom_type_def)

text \<open>
  Claim C3. An attribute-based input with type tag \<open>Polygon\<close> whose exterior ring has
  no points: the adapter's exterior is \<open>None\<close>, \<open>PolygonPath\<close> returns \<open>None\<close>, and
  \<open>PolygonPatch\<close> returns \<open>None\<close> for every patch constructor and all keyword
  arguments; none of them raises.
\<close>

theorem empty_exterior_is_None:
  assumes "attr_geom_type ob = Some ''Polygon''"
    and "attr_exterior ob = Some ring"
    and "coords ring = []"
  shows "exterior (Polygon_init (Object ob)) = Inr None
     \<and> PolygonPath to_float (Object ob) = Inr None
     \<and> PolygonPatch PathPatch to_float (Object ob) kwargs = Inr None"
  using assms
  by (simp add: Polygon_init_kind_A PolygonPath_def PolygonPatch_def geom_type_def exterior_def)

theorem empty_exterior_is_None_witness:
  "exterior (Polygon_init (Object \<lparr>attr_geom_type = Some ''Polygon'',
        attr_exterior = Some (LinearRing ([] :: (64 word \<times> 64 word) list)),
        attr_interiors = Some [], attr_geo_interface = None\<rparr>)) = Inr None
   \<and> PolygonPath float64_of_int64 (Object \<lparr>attr_geom_type = Some ''Polygon'',
        attr_exterior = Some (LinearRing []),
        attr_interiors = Some [], attr_geo_interface = None\<rparr>) = Inr None
   \<and> PolygonPatch (\<lambda>p (k :: (string \<times> string) list). Inr (p, k)) float64_of_int64
        (Object \<lparr>attr_geom_type = Some ''Polygon'',
        attr_exterior = Some (LinearRing []),
        attr_interiors = Some [], attr_geo_interface = None\<rparr>) [(''fc'', ''blue'')] = Inr None"
  using empty_exterior_is_None
    [of "\<lparr>attr_geom_type = Some ''Polygon'',
        attr_exterior = Some (LinearRing ([] :: (64 word \<times> 64 word) list)),
        attr_interiors = Some [], attr_geo_interface = None\<rparr>" "LinearRing []"
        float64_of_int64
        "\<lambda>p (k :: (string \<times> string) list). Inr (p, k)" "[(''fc'', ''blue'')]"]
  by simp





section \<open>The construction of the adapter\<close>

text \<open>
  Claim C7. The constructor classifies its argument in this order: an object with an
  attribute \<open>exterior\<close> or \<open>interiors\<close> is stored as it is, as an attribute-based
  polygon; otherwise an object with \<open>__geo_interface__\<close> is replaced by the mapping
  that this attribute yields; otherwise the argument itself is stored and read as a
  mapping. The flag is set by the constructor alone: the three properties follow the
  stored flag and do not look for the attributes again, so an adapter that is flagged as
  a mapping but holds an object raises on every property.
\<close>

theorem Polygon_init_classification:
  "(hasattr_exterior (ctx :: 'p py_context) \<or> hasattr_interiors ctx \<longrightarrow>
      Polygon_init ctx = \<lparr>is_shapely = True, self_context = ctx\<rparr>)
   \<and> (\<not> hasattr_exterior ctx \<and> \<not> hasattr_interiors ctx \<and> getattr_geo_interface ctx = Some g \<longrightarrow>
      Polygon_init ctx = \<lparr>is_shapely = False, self_context = Mapping g\<rparr>)
   \<and> (\<not> hasattr_exterior ctx \<and> \<not> hasattr_interiors ctx \<and> \<not> hasattr_geo_interface ctx \<longrightarrow>
      Polygon_init ctx = \<lparr>is_shapely = False, self_context = ctx\<rparr>)
   \<and> is_shapely (Polygon_init ctx) = (hasattr_exterior ctx \<or> hasattr_interiors ctx)
   \<and> geom_type \<lparr>is_shapely = False, self_context = Object (ob :: 'p py_object)\<rparr>
       = Inl AttributeError
   \<and> exterior \<lparr>is_shapely = False, self_context = Object ob\<rparr> = Inl AttributeError
   \<and> interiors \<lparr>is_shapely = False, self_context = Object ob\<rparr> = Inl AttributeError"
  by (auto simp: Polygon_init_def hasattr_geo_interface_def geom_type_def exterior_def
      interiors_def split: option.splits)

theorem Polygon_init_classification_witness:
  "Polygon_init (Object \<lparr>attr_geom_type = Some ''Polygon'',
       attr_exterior = Some (LinearRing [(0::int, 0::int)]), attr_interiors = None,
       attr_geo_interface = Some \<lparr>type_entry = Some ''Point'', coordinates_entry = None\<rparr>\<rparr>)
     = \<lparr>is_shapely = True, self_context = Object \<lparr>attr_geom_type = Some ''Polygon'',
       attr_exterior = Some (LinearRing [(0, 0)]), attr_interiors = None,
       attr_geo_interface = Some \<lparr>type_entry = Some ''Point'', coordinates_entry = None\<rparr>\<rparr>\<rparr>
   \<and> Polygon_init (Object \<lparr>attr_geom_type = None, attr_exterior = None, attr_interiors = None,
       attr_geo_interface = Some \<lparr>type_entry = Some ''Polygon'',
         coordinates_entry = Some [[(0::int, 0::int)]]\<rparr>\<rparr>)
     = \<lparr>is_shapely = False, self_context = Mapping \<lparr>type_entry = Some ''Polygon'',
         coordinates_entry = Some [[(0, 0)]]\<rparr>\<rparr>
   \<and> Polygon_init (Mapping \<lparr>type_entry = Some ''Polygon'',
         coordinates_entry = Some [[(0::int, 0::int)]]\<rparr>)
     = \<lparr>is_shapely = False, self_context = Mapping \<lparr>type_entry = Some ''Polygon'',
         coordinates_entry = Some [[(0, 0)]]\<rparr>\<rparr>"
  using Polygon_init_classification
    [where ctx = "Object \<lparr>attr_geom_type = Some ''Polygon'',
       attr_exterior = Some (LinearRing [(0::int, 0::int)]), attr_interiors = None,
       attr_geo_interface = Some \<lparr>type_entry = Some ''Point'', coordinates_entry = None\<rparr>\<rparr>"
       and g = "\<lparr>type_entry = Some ''Point'', coordinates_entry = None\<rparr>"
       and ob = "\<lparr>attr_geom_type = None, attr_exterior = None, attr_interiors = None,
         attr_geo_interface = None\<rparr>"]
    Polygon_init_classification
    [where ctx = "Object \<lparr>attr_geom_type = None, attr_exterior = None, attr_interiors = None,
       attr_geo_interface = Some \<lparr>type_entry = Some ''Polygon'',
         coordinates_entry = Some [[(0::int, 0::int)]]\<rparr>\<rparr>"
       and g = "\<lparr>type_entry = Some ''Polygon'', coordinates_entry = Some [[(0::int, 0::int)]]\<rparr>"
       and ob = "\<lparr>attr_geom_type = None, attr_exterior = None, attr_interiors = None,
         attr_geo_interface = None\<rparr>"]
    Polygon_init_classification
    [where ctx = "Mapping \<lparr>type_entry = Some ''Polygon'',
         coordinates_entry = Some [[(0::int, 0::int)]]\<rparr>"
       and g = "\<lparr>type_entry = Some ''Point'', coordinates_entry = None\<rparr>"
       and ob = "\<lparr>attr_geom_type = None, attr_exterior = None, attr_interiors = None,
         attr_geo_interface = None\<rparr>"]
  by (simp add: hasattr_geo_interface_def)

text \<open>
  Claim C8. \<open>geom_type\<close> of an attribute-based input is the type tag of the wrapped
  object; of a mapping, and of the mapping that \<open>__geo_interface__\<close> yields, it is the
  entry under \<open>type\<close>, and \<open>None\<close> when the key is absent.
\<close>

theorem geom_type_by_kind:
  "((hasattr_exterior (Object (ob :: 'p py_object)) \<or> hasattr_interiors (Object ob))
        \<and> attr_geom_type ob = Some t \<longrightarrow>
      geom_type (Polygon_init (Object ob)) = Inr (Some t))
   \<and> (\<not> hasattr_exterior (Object ob) \<and> \<not> hasattr_interiors (Object ob)
        \<and> attr_geo_interface ob = Some g \<longrightarrow>
      geom_type (Polygon_init (Object ob)) = Inr (type_entry g))
   \<and> geom_type (Polygon_init (Mapping (m :: 'p geo_mapping))) = Inr (type_entry m)
   \<and> geom_type (Polygon_init (Mapping \<lparr>type_entry = Some t,
         coordinates_entry = (c :: 'p list list option)\<rparr>)) = Inr (Some t)
   \<and> geom_type (Polygon_init (Mapping \<lparr>type_entry = None, coordinates_entry = c\<rparr>)) = Inr None"
  by (auto simp: Polygon_init_def geom_type_def)

theorem geom_type_by_kind_witness:
  "geom_type (Polygon_init (Object \<lparr>attr_geom_type = Some ''Polygon'',
       attr_exterior = Some (LinearRing [(0::int, 0::int)]), attr_interiors = Some [],
       attr_geo_interface = None\<rparr>)) = Inr (Some ''Polygon'')
   \<and> geom_type (Polygon_init (Object \<lparr>attr_geom_type = None, attr_exterior = None,
       attr_interiors = None,
       attr_geo_interface = Some \<lparr>type_entry = Some ''Point'',
         coordinates_entry = (None :: (int \<times> int) list list option)\<rparr>\<rparr>)) = Inr (Some ''Point'')"
  using geom_type_by_kind
    [where ob = "\<lparr>attr_geom_type = Some ''Polygon'',
       attr_exterior = Some (LinearRing [(0::int, 0::int)]), attr_interiors = Some [],
       attr_geo_interface = None\<rparr>" and t = "''Polygon''"
       and g = "\<lparr>type_entry = None, coordinates_entry = None\<rparr>"
       and m = "\<lparr>type_entry = None, coordinates_entry = None\<rparr>" and c = None]
    geom_type_by_kind
    [where ob = "\<lparr>attr_geom_type = None, attr_exterior = None,
       attr_interiors = None,
       attr_geo_interface = Some \<lparr>type_entry = Some ''Point'',
         coordinates_entry = (None :: (int \<times> int) list list option)\<rparr>\<rparr>" and t = "''Point''"
       and g = "\<lparr>type_entry = Some ''Point'', coordinates_entry = None\<rparr>"
       and m = "\<lparr>type_entry = None, coordinates_entry = None\<rparr>" and c = None]
  by simp

section \<open>The adapter on dictionaries\<close>

text \<open>
  Claim C5. For a dictionary \<^verbatim>\<open>{"type": "Polygon", "coordinates": [ext, hole1, hole2]}\<close>
  the adapter's exterior is \<open>ext\<close> itself and its interiors are \<open>[hole1, hole2]\<close>, in
  this order and with the points as they are; this holds for any number of holes after
  \<open>ext\<close>, and the interiors are the empty list when \<open>ext\<close> is the only element.
\<close>

theorem mapping_exterior_interiors_exact:
  "exterior (Polygon_init (Mapping \<lparr>type_entry = Some ''Polygon'',
       coordinates_entry = Some [ext, hole1, hole2]\<rparr>)) = Inr (Some ext)
   \<and> interiors (Polygon_init (Mapping \<lparr>type_entry = Some ''Polygon'',
       coordinates_entry = Some [ext, hole1, hole2]\<rparr>)) = Inr [hole1, hole2]
   \<and> exterior (Polygon_init (Mapping \<lparr>type_entry = Some ''Polygon'',
       coordinates_entry = Some (ext # holes)\<rparr>)) = Inr (Some ext)
   \<and> interiors (Polygon_init (Mapping \<lparr>type_entry = Some ''Polygon'',
       coordinates_entry = Some (ext # holes)\<rparr>)) = Inr holes
   \<and> interiors (Polygon_init (Mapping \<lparr>type_entry = Some ''Polygon'',
       coordinates_entry = Some [ext]\<rparr>)) = Inr []"
  by (simp add: Polygon_init_Mapping exterior_def interiors_def dict_get_def slice_from1_def)

text \<open>
  Claim C4, at a dictionary without the key \<open>coordinates\<close>. The default \<^verbatim>\<open>[]\<close> of
  \<^verbatim>\<open>get\<close> is indexed at 0, so \<open>exterior\<close> raises \<^verbatim>\<open>IndexError\<close> where the claim has
  an empty sequence, and \<open>PolygonPath\<close> raises with it; \<open>interiors\<close>, which slices the
  same default, returns the empty list.
\<close>

theorem exterior_without_coordinates_raises:
  "exterior (Polygon_init (Mapping \<lparr>type_entry = Some ''Polygon'', coordinates_entry = None\<rparr>))
     = Inl IndexError
   \<and> interiors (Polygon_init (Mapping \<lparr>type_entry = Some ''Polygon'', coordinates_entry = None\<rparr>))
     = Inr []
   \<and> PolygonPath to_float
        (Mapping \<lparr>type_entry = Some ''Polygon'', coordinates_entry = None\<rparr>)
     = Inl IndexError"
  by (simp add: Polygon_init_Mapping PolygonPath_def geom_type_def exterior_def interiors_def
      dict_get_def slice_from1_def)


end
